theory Spec2Isabelle
  imports Main "HOL-Library.Word" "HOL-Library.Sublist"
begin

section \<open>Values of the Python program\<close>

text \<open>
  The Lambda event is the result of parsing a JSON document: \<open>None\<close>, booleans, integers,
  strings, lists and dicts. A dict is an association list in insertion order; a lookup takes
  the first binding of a key (parsed dicts have distinct keys). JSON floats are left out.
  Strings are lists of 8-bit characters; the identifiers of the mail service are ASCII.
\<close>

datatype json =
    JNull
  | JBool bool
  | JInt int
  | JStr string
  | JList "json list"
  | JDict "(string \<times> json) list"

type_synonym bytes = "8 word list"

text \<open>An exception object: its class name and the text \<open>str(e)\<close> gives.\<close>

datatype exn = Exn string string

fun exn_str :: "exn \<Rightarrow> string" where
  "exn_str (Exn cls msg) = msg"

definition quoted :: "string \<Rightarrow> string" where
  "quoted s = CHR 0x27 # s @ [CHR 0x27]"

definition KeyError :: "string \<Rightarrow> exn" where
  "KeyError k = Exn ''KeyError'' (quoted k)"

fun type_name :: "json \<Rightarrow> string" where
  "type_name JNull = ''NoneType''"
| "type_name (JBool b) = ''bool''"
| "type_name (JInt i) = ''int''"
| "type_name (JStr s) = ''str''"
| "type_name (JList xs) = ''list''"
| "type_name (JDict kvs) = ''dict''"

definition AttributeError :: "json \<Rightarrow> string \<Rightarrow> exn" where
  "AttributeError v attr =
     Exn ''AttributeError'' (quoted (type_name v) @ '' object has no attribute '' @ quoted attr)"

definition TypeError_not_iterable :: "json \<Rightarrow> exn" where
  "TypeError_not_iterable v =
     Exn ''TypeError'' (quoted (type_name v) @ '' object is not iterable'')"

text \<open>Truth value of an object, as \<open>if message_id:\<close> tests it.\<close>

fun truthy :: "json \<Rightarrow> bool" where
  "truthy JNull = False"
| "truthy (JBool b) = b"
| "truthy (JInt i) = (i \<noteq> 0)"
| "truthy (JStr s) = (s \<noteq> [])"
| "truthy (JList xs) = (xs \<noteq> [])"
| "truthy (JDict kvs) = (kvs \<noteq> [])"

text \<open>\<open>obj.get(key, default)\<close>: only a dict has the method.\<close>

fun py_get :: "json \<Rightarrow> string \<Rightarrow> json \<Rightarrow> exn + json" where
  "py_get (JDict kvs) k d = Inr (case map_of kvs k of Some v \<Rightarrow> v | None \<Rightarrow> d)"
| "py_get v k d = Inl (AttributeError v ''get'')"

text \<open>
  The items a \<open>for\<close> loop draws from an object: the elements of a list, the keys of a
  dict, the one-character strings of a string; anything else is not iterable.
\<close>

fun py_iter :: "json \<Rightarrow> exn + json list" where
  "py_iter (JList xs) = Inr xs"
| "py_iter (JDict kvs) = Inr (map (\<lambda>kv. JStr (fst kv)) kvs)"
| "py_iter (JStr s) = Inr (map (\<lambda>c. JStr [c]) s)"
| "py_iter v = Inl (TypeError_not_iterable v)"

text \<open>Decimal rendering of a natural number, as an f-string renders a status code.\<close>

definition digit_char :: "nat \<Rightarrow> char" where
  "digit_char d = char_of (48 + d)"

fun show_nat :: "nat \<Rightarrow> string" where
  "show_nat n = (if n < 10 then [digit_char n] else show_nat (n div 10) @ [digit_char (n mod 10)])"

declare show_nat.simps [simp del]

section \<open>The world outside the process\<close>

text \<open>
  A request as the constructor \<open>urllib.request.Request\<close> receives it: URL, body,
  HTTP method and headers.
\<close>

record request =
  url :: string
  data :: bytes
  http_method :: string
  headers :: "(string \<times> json) list"

text \<open>
  What sending a request ends in: no reply at all (the URL is rejected, the connection
  cannot be established, or the timeout elapses), with the exception that is raised; or a
  final reply of the endpoint with its status code and reason phrase.
\<close>

datatype reply =
    NoReply exn
  | Reply nat string

text \<open>
  The environment of one invocation: the process environment \<open>os.environ\<close>; the object
  store (\<open>get_object\<close> with the read of the body: bucket and key to the exception raised or
  the content); the endpoint; and \<open>str\<close> on values that are not strings.
\<close>

record env =
  environ :: "string \<rightharpoonup> string"
  get_object :: "string \<Rightarrow> string \<Rightarrow> exn + bytes"
  endpoint :: "request \<Rightarrow> nat \<Rightarrow> reply"
  py_str :: "json \<Rightarrow> string"

text \<open>An f-string field \<open>{v}\<close>: a string is inserted as it is.\<close>

fun fmt :: "env \<Rightarrow> json \<Rightarrow> string" where
  "fmt e (JStr s) = s"
| "fmt e v = py_str e v"

record response =
  status :: nat
  reason :: string

definition HTTPError :: "nat \<Rightarrow> string \<Rightarrow> exn" where
  "HTTPError code msg = Exn ''HTTPError'' (''HTTP Error '' @ show_nat code @ '': '' @ msg)"

text \<open>
  \<open>urllib.request.urlopen(req, timeout=t)\<close> with the default opener of the standard
  library: a failure to get a reply is raised; a reply with a status in 200..299 is returned
  as the response; any other final reply is raised as \<open>HTTPError\<close> by the opener's
  \<open>HTTPErrorProcessor\<close> and \<open>HTTPDefaultErrorHandler\<close>. (Redirects that the opener
  follows are not final replies.)
\<close>

definition urlopen :: "env \<Rightarrow> request \<Rightarrow> nat \<Rightarrow> exn + response" where
  "urlopen e req tmo =
     (case endpoint e req tmo of
        NoReply x \<Rightarrow> Inl x
      | Reply code msg \<Rightarrow>
          if 200 \<le> code \<and> code < 300 then Inr \<lparr>status = code, reason = msg\<rparr>
          else Inl (HTTPError code msg))"

section \<open>The forwarder\<close>

text \<open>The observable actions of a run, in the order they happen.\<close>

datatype action =
    EnvRead string
  | Forward json
  | S3Get string string
  | HttpPost request nat
  | Print string

text \<open>
  \<open>RawEmailForwarder\<close>: the two configuration strings. The S3 client handle is the
  \<open>get_object\<close> of the environment.
\<close>

record forwarder =
  api_endpoint :: string
  bucket_name :: string

text \<open>\<open>RawEmailForwarder.__init__\<close>: \<open>os.environ[k]\<close> raises \<open>KeyError\<close> on a missing key.\<close>

definition forwarder_init :: "env \<Rightarrow> action list \<times> (exn + forwarder)" where
  "forwarder_init e =
     (case environ e ''API_ENDPOINT'' of
        None \<Rightarrow> ([EnvRead ''API_ENDPOINT''], Inl (KeyError ''API_ENDPOINT''))
      | Some ep \<Rightarrow>
          (case environ e ''S3_BUCKET_NAME'' of
             None \<Rightarrow> ([EnvRead ''API_ENDPOINT'', EnvRead ''S3_BUCKET_NAME''],
                       Inl (KeyError ''S3_BUCKET_NAME''))
           | Some b \<Rightarrow> ([EnvRead ''API_ENDPOINT'', EnvRead ''S3_BUCKET_NAME''],
                        Inr \<lparr>api_endpoint = ep, bucket_name = b\<rparr>)))"

definition error_line :: "env \<Rightarrow> json \<Rightarrow> exn \<Rightarrow> string" where
  "error_line e message_id x =
     ''Error processing message '' @ fmt e message_id @ '': '' @ exn_str x"

definition status_line :: "nat \<Rightarrow> string" where
  "status_line code = ''API error status code: '' @ show_nat code"

definition build_request :: "forwarder \<Rightarrow> bytes \<Rightarrow> json \<Rightarrow> request" where
  "build_request self body message_id =
     \<lparr>url = api_endpoint self, data = body, http_method = ''POST'',
      headers = [(''X-Message-ID'', message_id)]\<rparr>"

text \<open>
  \<open>RawEmailForwarder.forward_email\<close>: every exception of the body is printed with the
  message id and raised again; a response whose status is not 200 is printed only.
\<close>

definition forward_email :: "env \<Rightarrow> forwarder \<Rightarrow> json \<Rightarrow> action list \<times> (exn + unit)" where
  "forward_email e self message_id =
     (let key = fmt e message_id;
          t1 = [Forward message_id, S3Get (bucket_name self) key]
      in case get_object e (bucket_name self) key of
           Inl x \<Rightarrow> (t1 @ [Print (error_line e message_id x)], Inl x)
         | Inr body \<Rightarrow>
             (let req = build_request self body message_id;
                  t2 = t1 @ [HttpPost req 300]
              in case urlopen e req 300 of
                   Inl x \<Rightarrow> (t2 @ [Print (error_line e message_id x)], Inl x)
                 | Inr resp \<Rightarrow>
                     if status resp \<noteq> 200
                     then (t2 @ [Print (status_line (status resp))], Inr ())
                     else (t2, Inr ())))"

section \<open>The entry point\<close>

text \<open>\<open>record.get("ses", {}).get("mail", {}).get("messageId")\<close>\<close>

definition get_message_id :: "json \<Rightarrow> exn + json" where
  "get_message_id r =
     (case py_get r ''ses'' (JDict []) of
        Inl x \<Rightarrow> Inl x
      | Inr s \<Rightarrow>
          (case py_get s ''mail'' (JDict []) of
             Inl x \<Rightarrow> Inl x
           | Inr m \<Rightarrow> py_get m ''messageId'' JNull))"

text \<open>The body of the \<open>for\<close> loop over the records, run from the first record on.\<close>

fun process_records :: "env \<Rightarrow> forwarder \<Rightarrow> json list \<Rightarrow> action list \<times> (exn + unit)" where
  "process_records e self [] = ([], Inr ())"
| "process_records e self (r # rs) =
     (case get_message_id r of
        Inl x \<Rightarrow> ([], Inl x)
      | Inr message_id \<Rightarrow>
          if truthy message_id
          then (case forward_email e self message_id of
                  (t, Inl x) \<Rightarrow> (t, Inl x)
                | (t, Inr u) \<Rightarrow>
                    (case process_records e self rs of (t', res) \<Rightarrow> (t @ t', res)))
          else process_records e self rs)"

definition ack :: json where
  "ack = JDict [(''statusCode'', JInt 200)]"

definition lambda_handler :: "env \<Rightarrow> json \<Rightarrow> action list \<times> (exn + json)" where
  "lambda_handler e event =
     (case forwarder_init e of
        (t0, Inl x) \<Rightarrow> (t0, Inl x)
      | (t0, Inr self) \<Rightarrow>
          (case py_get event ''Records'' (JList []) of
             Inl x \<Rightarrow> (t0, Inl x)
           | Inr recs \<Rightarrow>
               (case py_iter recs of
                  Inl x \<Rightarrow> (t0, Inl x)
                | Inr rs \<Rightarrow>
                    (case process_records e self rs of
                       (t, Inl x) \<Rightarrow> (t0 @ t, Inl x)
                     | (t, Inr u) \<Rightarrow> (t0 @ t, Inr ack)))))"

section \<open>Observations on a run\<close>

text \<open>The arguments of the calls of \<open>forward_email\<close>, in order.\<close>

fun forward_calls :: "action list \<Rightarrow> json list" where
  "forward_calls [] = []"
| "forward_calls (Forward m # t) = m # forward_calls t"
| "forward_calls (a # t) = forward_calls t"

text \<open>The keys read from \<open>os.environ\<close>, in order.\<close>

fun env_reads :: "action list \<Rightarrow> string list" where
  "env_reads [] = []"
| "env_reads (EnvRead k # t) = k # env_reads t"
| "env_reads (a # t) = env_reads t"

text \<open>
  The identifier a record carries, in the words of the specification: the string found
  under the nested path \<open>ses\<close>, \<open>mail\<close>, \<open>messageId\<close>, when the path is there and the
  string is not empty.
\<close>

fun spec_identifier :: "json \<Rightarrow> string option" where
  "spec_identifier (JDict kvs) =
     (case map_of kvs ''ses'' of
        Some (JDict s) \<Rightarrow>
          (case map_of s ''mail'' of
             Some (JDict m) \<Rightarrow>
               (case map_of m ''messageId'' of
                  Some (JStr i) \<Rightarrow> if i = [] then None else Some i
                | _ \<Rightarrow> None)
           | _ \<Rightarrow> None)
      | _ \<Rightarrow> None)"
| "spec_identifier v = None"

text \<open>
  The calls of \<open>forward\<close> the specification prescribes for a sequence of records: one for
  each record that carries an identifier, in the order of the records.
\<close>

definition spec_forward_calls :: "json list \<Rightarrow> json list" where
  "spec_forward_calls rs = map JStr (List.map_filter spec_identifier rs)"

text \<open>
  A record typed as the mail service sends it, with any part of the path left out: a dict
  whose \<open>ses\<close> and \<open>mail\<close> values, where present, are dicts, and whose \<open>messageId\<close>, where
  present, is a string or a value that counts as false.
\<close>

fun well_typed_record :: "json \<Rightarrow> bool" where
  "well_typed_record (JDict kvs) =
     (case map_of kvs ''ses'' of
        None \<Rightarrow> True
      | Some (JDict s) \<Rightarrow>
          (case map_of s ''mail'' of
             None \<Rightarrow> True
           | Some (JDict m) \<Rightarrow>
               (case map_of m ''messageId'' of
                  None \<Rightarrow> True
                | Some (JStr i) \<Rightarrow> True
                | Some v \<Rightarrow> \<not> truthy v)
           | Some v \<Rightarrow> False)
      | Some v \<Rightarrow> False)"
| "well_typed_record v = False"

text \<open>
  A record completes: its lookup raises nothing, and the call of \<open>forward_email\<close>, when
  there is one, returns normally.
\<close>

definition completes :: "env \<Rightarrow> forwarder \<Rightarrow> json \<Rightarrow> bool" where
  "completes e self r =
     (case get_message_id r of
        Inl x \<Rightarrow> False
      | Inr m \<Rightarrow> truthy m \<longrightarrow> snd (forward_email e self m) = Inr ())"

section \<open>A sample environment\<close>

text \<open>
  A bucket \<open>inbox\<close> holding five objects with the same seven bytes, and an endpoint that
  answers by identifier: 500 for \<open>m500\<close>, 204 for \<open>m204\<close>, no answer for \<open>mdown\<close>,
  and 200 otherwise.
\<close>

definition sample_body :: bytes where
  "sample_body = [0x46, 0x72, 0x6F, 0x6D, 0x3A, 0xFF, 0x00]"

definition sample_env :: env where
  "sample_env =
     \<lparr>environ = [''API_ENDPOINT'' \<mapsto> ''https://api.example.com/mail'',
                 ''S3_BUCKET_NAME'' \<mapsto> ''inbox''],
      get_object = (\<lambda>b k.
         if b = ''inbox'' \<and> k \<in> set [''m1'', ''m2'', ''m500'', ''m204'', ''mdown'']
         then Inr sample_body
         else Inl (Exn ''NoSuchKey'' ''The specified key does not exist.'')),
      endpoint = (\<lambda>req tmo.
         if headers req = [(''X-Message-ID'', JStr ''m500'')] then Reply 500 ''Internal Server Error''
         else if headers req = [(''X-Message-ID'', JStr ''m204'')] then Reply 204 ''No Content''
         else if headers req = [(''X-Message-ID'', JStr ''mdown'')]
           then NoReply (Exn ''URLError'' ''<urlopen error timed out>'')
         else Reply 200 ''OK''),
      py_str = (\<lambda>v. ''<object>'')\<rparr>"

definition sample_forwarder :: forwarder where
  "sample_forwarder = \<lparr>api_endpoint = ''https://api.example.com/mail'', bucket_name = ''inbox''\<rparr>"

definition sample_request :: "string \<Rightarrow> request" where
  "sample_request ident =
     \<lparr>url = ''https://api.example.com/mail'', data = sample_body,
      http_method = ''POST'', headers = [(''X-Message-ID'', JStr ident)]\<rparr>"

text \<open>A record of the mail service carrying the identifier \<open>ident\<close>.\<close>

definition mail_record :: "string \<Rightarrow> json" where
  "mail_record ident =
     JDict [(''ses'', JDict [(''mail'', JDict [(''messageId'', JStr ident)])])]"

definition records_event :: "json list \<Rightarrow> json" where
  "records_event rs = JDict [(''Records'', JList rs)]"

text \<open>A record whose \<open>messageId\<close> is the value \<open>v\<close>, of any type.\<close>

definition record_with :: "json \<Rightarrow> json" where
  "record_with v = JDict [(''ses'', JDict [(''mail'', JDict [(''messageId'', v)])])]"

text \<open>
  The sample environment with \<open>str(5)\<close> being \<open>5\<close> and an object stored under the key
  \<open>5\<close>.
\<close>

definition number_env :: env where
  "number_env =
     sample_env
       \<lparr>get_object := (\<lambda>b k.
          if b = ''inbox'' \<and> k \<in> set [''5'', ''m1'']
          then Inr sample_body
          else Inl (Exn ''NoSuchKey'' ''The specified key does not exist.'')),
        py_str := (\<lambda>v. if v = JInt 5 then ''5'' else ''<object>'')\<rparr>"

section \<open>Facts about runs\<close>

lemma forward_calls_append: "forward_calls (s @ t) = forward_calls s @ forward_calls t"
  by (induction s rule: forward_calls.induct) simp_all

lemma env_reads_append: "env_reads (s @ t) = env_reads s @ env_reads t"
  by (induction s rule: env_reads.induct) simp_all

lemma forward_calls_set: "m \<in> set (forward_calls t) \<longleftrightarrow> Forward m \<in> set t"
  by (induction t rule: forward_calls.induct) auto

lemma forwarder_init_cases:
  obtains (no_endpoint) "environ e ''API_ENDPOINT'' = None"
      "forwarder_init e = ([EnvRead ''API_ENDPOINT''], Inl (KeyError ''API_ENDPOINT''))"
  | (no_bucket) ep where "environ e ''API_ENDPOINT'' = Some ep"
      "environ e ''S3_BUCKET_NAME'' = None"
      "forwarder_init e =
         ([EnvRead ''API_ENDPOINT'', EnvRead ''S3_BUCKET_NAME''], Inl (KeyError ''S3_BUCKET_NAME''))"
  | (configured) ep b where "environ e ''API_ENDPOINT'' = Some ep"
      "environ e ''S3_BUCKET_NAME'' = Some b"
      "forwarder_init e =
         ([EnvRead ''API_ENDPOINT'', EnvRead ''S3_BUCKET_NAME''],
          Inr \<lparr>api_endpoint = ep, bucket_name = b\<rparr>)"
  by (cases "environ e ''API_ENDPOINT''"; cases "environ e ''S3_BUCKET_NAME''")
     (simp_all add: forwarder_init_def)

lemma forwarder_init_trace:
  "forward_calls (fst (forwarder_init e)) = []
   \<and> (\<forall>b k. S3Get b k \<notin> set (fst (forwarder_init e)))
   \<and> (\<forall>req tmo. HttpPost req tmo \<notin> set (fst (forwarder_init e)))"
  by (cases rule: forwarder_init_cases [where e = e]) simp_all

lemma forward_email_calls: "forward_calls (fst (forward_email e self m)) = [m]"
  by (simp add: forward_email_def Let_def split: sum.split)

lemma forward_email_env_reads: "env_reads (fst (forward_email e self m)) = []"
  by (simp add: forward_email_def Let_def split: sum.split)

lemma forward_email_bucket:
  "S3Get b k \<in> set (fst (forward_email e self m)) \<Longrightarrow> b = bucket_name self"
  by (auto simp add: forward_email_def Let_def split: sum.splits if_splits)

lemma forward_email_url:
  "HttpPost req tmo \<in> set (fst (forward_email e self m)) \<Longrightarrow> url req = api_endpoint self"
  by (auto simp add: forward_email_def build_request_def Let_def split: sum.splits if_splits)

text \<open>One step of the loop, by the three things that can happen to a record.\<close>

lemma process_records_step:
  obtains (lookup_raises) x where "get_message_id r = Inl x"
      "process_records e self (r # rs) = ([], Inl x)"
  | (skipped) m where "get_message_id r = Inr m" "\<not> truthy m"
      "process_records e self (r # rs) = process_records e self rs"
  | (forward_raises) m t x where "get_message_id r = Inr m" "truthy m"
      "forward_email e self m = (t, Inl x)"
      "process_records e self (r # rs) = (t, Inl x)"
  | (forwarded) m t where "get_message_id r = Inr m" "truthy m"
      "forward_email e self m = (t, Inr ())"
      "process_records e self (r # rs) =
         (t @ fst (process_records e self rs), snd (process_records e self rs))"
proof (cases "get_message_id r")
  case (Inl x)
  then show ?thesis using lookup_raises by simp
next
  case (Inr m)
  show ?thesis
  proof (cases "truthy m")
    case False
    with Inr show ?thesis using skipped by simp
  next
    case True
    obtain t res where fe: "forward_email e self m = (t, res)"
      by (cases "forward_email e self m")
    show ?thesis
    proof (cases res)
      case (Inl x)
      with Inr True fe show ?thesis using forward_raises by simp
    next
      case (Inr u)
      with \<open>get_message_id r = Inr m\<close> True fe show ?thesis
        using forwarded [of m t] by (simp add: case_prod_beta)
    qed
  qed
qed

lemma process_records_env_reads: "env_reads (fst (process_records e self rs)) = []"
proof (induction rs)
  case Nil
  show ?case by simp
next
  case (Cons r rs)
  show ?case
  proof (cases rule: process_records_step [where r = r and e = e and self = self and rs = rs])
    case (forwarded m t)
    with Cons forward_email_env_reads [of e self m] show ?thesis
      by (simp add: env_reads_append)
  next
    case (forward_raises m t x)
    with forward_email_env_reads [of e self m] show ?thesis by simp
  qed (use Cons in simp_all)
qed

lemma process_records_bucket:
  "S3Get b k \<in> set (fst (process_records e self rs)) \<Longrightarrow> b = bucket_name self"
proof (induction rs)
  case Nil
  then show ?case by simp
next
  case (Cons r rs)
  show ?case
  proof (cases rule: process_records_step [where r = r and e = e and self = self and rs = rs])
    case (forwarded m t)
    with Cons forward_email_bucket [of b k e self m] show ?thesis by auto
  next
    case (forward_raises m t x)
    with Cons.prems forward_email_bucket [of b k e self m] show ?thesis by simp
  qed (use Cons in simp_all)
qed

lemma process_records_url:
  "HttpPost req tmo \<in> set (fst (process_records e self rs)) \<Longrightarrow> url req = api_endpoint self"
proof (induction rs)
  case Nil
  then show ?case by simp
next
  case (Cons r rs)
  show ?case
  proof (cases rule: process_records_step [where r = r and e = e and self = self and rs = rs])
    case (forwarded m t)
    with Cons forward_email_url [of req tmo e self m] show ?thesis by auto
  next
    case (forward_raises m t x)
    with Cons.prems forward_email_url [of req tmo e self m] show ?thesis by simp
  qed (use Cons in simp_all)
qed

lemma process_records_append:
  assumes "process_records e self rs1 = (t1, Inr ())"
  shows "process_records e self (rs1 @ rs) =
           (t1 @ fst (process_records e self rs), snd (process_records e self rs))"
  using assms
proof (induction rs1 arbitrary: t1)
  case Nil
  then show ?case by simp
next
  case (Cons r rs1)
  show ?case
  proof (cases rule: process_records_step [where r = r and e = e and self = self and rs = rs1])
    case (lookup_raises x)
    with Cons.prems show ?thesis by simp
  next
    case (skipped m)
    with Cons show ?thesis by simp
  next
    case (forward_raises m t x)
    with Cons.prems show ?thesis by simp
  next
    case (forwarded m t)
    with Cons.prems have snd1: "snd (process_records e self rs1) = Inr ()"
      and t1: "t1 = t @ fst (process_records e self rs1)" by simp_all
    from snd1 have "process_records e self rs1 = (fst (process_records e self rs1), Inr ())"
      by (metis prod.collapse)
    from Cons.IH [OF this]
    have "process_records e self (rs1 @ rs) =
            (fst (process_records e self rs1) @ fst (process_records e self rs),
             snd (process_records e self rs))" .
    with forwarded(1-3) t1 show ?thesis by simp
  qed
qed

lemma process_records_raise:
  assumes "process_records e self rs1 = (t1, Inr ())"
    and "get_message_id r = Inr m" and "truthy m"
    and "forward_email e self m = (t, Inl x)"
  shows "process_records e self (rs1 @ r # rs2) = (t1 @ t, Inl x)"
  using process_records_append [OF assms(1), of "r # rs2"] assms(2-4) by simp

lemma process_records_calls_truthy:
  "m \<in> set (forward_calls (fst (process_records e self rs))) \<Longrightarrow> truthy m"
proof (induction rs)
  case Nil
  then show ?case by simp
next
  case (Cons r rs)
  show ?case
  proof (cases rule: process_records_step [where r = r and e = e and self = self and rs = rs])
    case (lookup_raises x)
    with Cons.prems show ?thesis by simp
  next
    case (skipped m')
    with Cons show ?thesis by simp
  next
    case (forward_raises m' t x)
    with Cons.prems forward_email_calls [of e self m'] show ?thesis by auto
  next
    case (forwarded m' t)
    with Cons forward_email_calls [of e self m'] show ?thesis
      by (auto simp add: forward_calls_append)
  qed
qed

text \<open>
  On a well typed record the lookup of the code raises nothing and finds what the
  specification calls the identifier of the record, or a value that counts as false.
\<close>

lemma well_typed_lookup:
  assumes "well_typed_record r"
  shows "(\<exists>s. spec_identifier r = Some s \<and> get_message_id r = Inr (JStr s) \<and> s \<noteq> [])
         \<or> (\<exists>m. spec_identifier r = None \<and> get_message_id r = Inr m \<and> \<not> truthy m)"
proof (cases r)
  case (JDict kvs)
  show ?thesis
  proof (cases "map_of kvs ''ses''")
    case None
    with JDict show ?thesis by (simp add: get_message_id_def)
  next
    case (Some v)
    note ses = this
    with JDict assms obtain s where v: "v = JDict s" by (cases v) simp_all
    show ?thesis
    proof (cases "map_of s ''mail''")
      case None
      with JDict ses v show ?thesis by (simp add: get_message_id_def)
    next
      case (Some w)
      note mail = this
      with JDict ses v assms obtain m where w: "w = JDict m" by (cases w) simp_all
      show ?thesis
      proof (cases "map_of m ''messageId''")
        case None
        with JDict ses v mail w show ?thesis by (simp add: get_message_id_def)
      next
        case (Some i)
        with JDict ses v mail w assms show ?thesis
          by (cases i) (simp_all add: get_message_id_def)
      qed
    qed
  qed
qed (use assms in simp_all)

lemma process_records_well_typed:
  assumes "\<forall>r \<in> set rs. well_typed_record r"
  shows "prefix (forward_calls (fst (process_records e self rs))) (spec_forward_calls rs)
         \<and> ((\<forall>s \<in> set (List.map_filter spec_identifier rs).
                 snd (forward_email e self (JStr s)) = Inr ()) \<longrightarrow>
              forward_calls (fst (process_records e self rs)) = spec_forward_calls rs
              \<and> snd (process_records e self rs) = Inr ())"
  using assms
proof (induction rs)
  case Nil
  show ?case by (simp add: spec_forward_calls_def map_filter_simps)
next
  case (Cons r rs)
  then have ih: "prefix (forward_calls (fst (process_records e self rs))) (spec_forward_calls rs)
         \<and> ((\<forall>s \<in> set (List.map_filter spec_identifier rs).
                 snd (forward_email e self (JStr s)) = Inr ()) \<longrightarrow>
              forward_calls (fst (process_records e self rs)) = spec_forward_calls rs
              \<and> snd (process_records e self rs) = Inr ())"
    by simp
  from Cons.prems have "well_typed_record r" by simp
  from well_typed_lookup [OF this] show ?case
  proof (elim disjE exE conjE)
    fix s
    assume sp: "spec_identifier r = Some s" and g: "get_message_id r = Inr (JStr s)" and ne: "s \<noteq> []"
    obtain t res where fe: "forward_email e self (JStr s) = (t, res)"
      by (cases "forward_email e self (JStr s)")
    have ct: "forward_calls t = [JStr s]" using forward_email_calls [of e self "JStr s"] fe by simp
    have sc: "spec_forward_calls (r # rs) = JStr s # spec_forward_calls rs"
      using sp by (simp add: spec_forward_calls_def map_filter_simps)
    have ms: "List.map_filter spec_identifier (r # rs) = s # List.map_filter spec_identifier rs"
      using sp by (simp add: map_filter_simps)
    show ?thesis
    proof (cases res)
      case (Inl x)
      with g ne fe ct sc ms show ?thesis by simp
    next
      case (Inr u)
      with g ne fe ct sc ms ih show ?thesis
        by (simp add: case_prod_beta forward_calls_append)
    qed
  next
    fix m
    assume sp: "spec_identifier r = None" and g: "get_message_id r = Inr m" and f: "\<not> truthy m"
    have sc: "spec_forward_calls (r # rs) = spec_forward_calls rs"
      using sp by (simp add: spec_forward_calls_def map_filter_simps)
    have ms: "List.map_filter spec_identifier (r # rs) = List.map_filter spec_identifier rs"
      using sp by (simp add: map_filter_simps)
    from g f sc ms ih show ?thesis by simp
  qed
qed

lemma process_records_completes:
  "snd (process_records e self rs) = Inr () \<longleftrightarrow> (\<forall>r \<in> set rs. completes e self r)"
proof (induction rs)
  case Nil
  show ?case by simp
next
  case (Cons r rs)
  show ?case
  proof (cases rule: process_records_step [where r = r and e = e and self = self and rs = rs])
    case (lookup_raises x)
    then show ?thesis by (simp add: completes_def)
  next
    case (skipped m)
    with Cons show ?thesis by (simp add: completes_def)
  next
    case (forward_raises m t x)
    then show ?thesis by (simp add: completes_def)
  next
    case (forwarded m t)
    with Cons show ?thesis by (simp add: completes_def)
  qed
qed

text \<open>The entry point once the forwarder is built and the records are drawn.\<close>

lemma lambda_handler_records:
  assumes "forwarder_init e = (t0, Inr self)"
    and "py_get event ''Records'' (JList []) = Inr recs"
    and "py_iter recs = Inr rs"
  shows "lambda_handler e event =
           (t0 @ fst (process_records e self rs),
            case snd (process_records e self rs) of Inl x \<Rightarrow> Inl x | Inr u \<Rightarrow> Inr ack)"
  using assms
  by (cases "process_records e self rs"; cases "snd (process_records e self rs)")
     (simp_all add: lambda_handler_def)

text \<open>Whatever the event, the entry point ends in one of these ways.\<close>

lemma lambda_handler_cases:
  obtains (stopped) x where
      "lambda_handler e event = (fst (forwarder_init e), Inl x)"
  | (looped) t0 self rs where "forwarder_init e = (t0, Inr self)"
      "lambda_handler e event =
         (t0 @ fst (process_records e self rs),
          case snd (process_records e self rs) of Inl x \<Rightarrow> Inl x | Inr u \<Rightarrow> Inr ack)"
proof -
  obtain t0 res where fi: "forwarder_init e = (t0, res)" by (cases "forwarder_init e")
  show ?thesis
  proof (cases res)
    case (Inl x)
    with fi show ?thesis using stopped [of x] by (simp add: lambda_handler_def)
  next
    case (Inr self)
    note self = this
    show ?thesis
    proof (cases "py_get event ''Records'' (JList [])")
      case (Inl x)
      with fi self show ?thesis using stopped [of x] by (simp add: lambda_handler_def)
    next
      case (Inr recs)
      note recs = this
      show ?thesis
      proof (cases "py_iter recs")
        case (Inl x)
        with fi self recs show ?thesis using stopped [of x] by (simp add: lambda_handler_def)
      next
        case (Inr rs)
        with fi self recs show ?thesis
          using looped [of t0 self rs] lambda_handler_records [of e t0 self event recs rs]
          by simp
      qed
    qed
  qed
qed

lemma lambda_handler_calls_truthy:
  assumes "Forward m \<in> set (fst (lambda_handler e event))"
  shows "truthy m"
proof (cases rule: lambda_handler_cases [where e = e and event = event])
  case (stopped x)
  with assms forwarder_init_trace [of e] show ?thesis
    by (simp add: forward_calls_set [symmetric])
next
  case (looped t0 self rs)
  with assms forwarder_init_trace [of e]
  have "m \<in> set (forward_calls (fst (process_records e self rs)))"
    by (simp add: forward_calls_set [symmetric] forward_calls_append)
  then show ?thesis by (rule process_records_calls_truthy)
qed

text \<open>
  The branch \<open>response.status != 200\<close> is taken exactly for the replies that \<open>urlopen\<close>
  returns and that are not 200, which are the other statuses of 200..299: the call prints
  the status (the line does not name the message) and returns normally.
\<close>

lemma forward_email_accepted_not_200:
  assumes "get_object e (bucket_name self) (fmt e message_id) = Inr body"
    and "endpoint e (build_request self body message_id) 300 = Reply code msg"
    and "200 < code" and "code < 300"
  shows "forward_email e self message_id =
           ([Forward message_id, S3Get (bucket_name self) (fmt e message_id),
             HttpPost (build_request self body message_id) 300,
             Print (''API error status code: '' @ show_nat code)], Inr ())"
  using assms by (simp add: forward_email_def urlopen_def status_line_def Let_def)

lemma forward_email_rejected_raises:
  assumes "get_object e (bucket_name self) (fmt e message_id) = Inr body"
    and "endpoint e (build_request self body message_id) 300 = Reply code msg"
    and "code < 200 \<or> 300 \<le> code"
  shows "forward_email e self message_id =
           ([Forward message_id, S3Get (bucket_name self) (fmt e message_id),
             HttpPost (build_request self body message_id) 300,
             Print (error_line e message_id (HTTPError code msg))], Inl (HTTPError code msg))"
  using assms by (auto simp add: forward_email_def urlopen_def Let_def)

section \<open>The forwarding operation\<close>

text \<open>
  C1. The claim: when the storage fetch succeeds and the endpoint answers with a status
  other than 200, for instance 500, \<open>forward_email\<close> returns normally and the rejection
  is logged only. On the code, an answer of 500 never reaches the test
  \<open>response.status != 200\<close>: \<open>urlopen\<close> raises \<open>HTTPError\<close>, the handler prints the
  error line and raises it again. The run for the stored object \<open>m500\<close>, whose endpoint
  answers 500:
\<close>

theorem forward_email_status_500_raises:
  "forward_email sample_env sample_forwarder (JStr ''m500'') =
     ([Forward (JStr ''m500''), S3Get ''inbox'' ''m500'',
       HttpPost \<lparr>url = ''https://api.example.com/mail'',
                 data = [0x46, 0x72, 0x6F, 0x6D, 0x3A, 0xFF, 0x00],
                 http_method = ''POST'', headers = [(''X-Message-ID'', JStr ''m500'')]\<rparr> 300,
       Print ''Error processing message m500: HTTP Error 500: Internal Server Error''],
      Inl (Exn ''HTTPError'' ''HTTP Error 500: Internal Server Error''))"
  by code_simp

text \<open>
  C2. When the object named by the identifier is in the bucket and the endpoint answers
  the request with 200, \<open>forward_email\<close> returns normally after exactly one storage read
  and one POST, and the body of the POST is the stored content, unchanged.
\<close>

theorem forward_email_delivers:
  assumes "get_object e (bucket_name self) ident = Inr body"
    and "endpoint e (build_request self body (JStr ident)) 300 = Reply 200 msg"
  shows "forward_email e self (JStr ident) =
           ([Forward (JStr ident), S3Get (bucket_name self) ident,
             HttpPost (build_request self body (JStr ident)) 300], Inr ())
         \<and> data (build_request self body (JStr ident)) = body
         \<and> http_method (build_request self body (JStr ident)) = ''POST''
         \<and> url (build_request self body (JStr ident)) = api_endpoint self"
  using assms by (simp add: forward_email_def urlopen_def build_request_def Let_def)

theorem forward_email_delivers_witness:
  "forward_email sample_env sample_forwarder (JStr ''m1'') =
     ([Forward (JStr ''m1''), S3Get ''inbox'' ''m1'', HttpPost (sample_request ''m1'') 300], Inr ())
   \<and> data (sample_request ''m1'') = [0x46, 0x72, 0x6F, 0x6D, 0x3A, 0xFF, 0x00]"
proof -
  have g: "get_object sample_env (bucket_name sample_forwarder) ''m1'' = Inr sample_body"
    by (simp add: sample_env_def sample_forwarder_def)
  have p: "endpoint sample_env (build_request sample_forwarder sample_body (JStr ''m1'')) 300 =
           Reply 200 ''OK''"
    by (simp add: sample_env_def build_request_def)
  show ?thesis
    using forward_email_delivers [OF g p]
    by (simp add: build_request_def sample_forwarder_def sample_request_def sample_body_def)
qed

text \<open>
  C3. When the storage fetch for the identifier raises (no such object, storage
  unreachable, access denied), \<open>forward_email\<close> prints the error with the identifier,
  raises that same exception, and makes no HTTP call.
\<close>

theorem forward_email_storage_failure:
  assumes "get_object e (bucket_name self) ident = Inl x"
  shows "forward_email e self (JStr ident) =
           ([Forward (JStr ident), S3Get (bucket_name self) ident,
             Print (''Error processing message '' @ ident @ '': '' @ exn_str x)], Inl x)
         \<and> (\<forall>req tmo. HttpPost req tmo \<notin> set (fst (forward_email e self (JStr ident))))"
  using assms by (simp add: forward_email_def error_line_def Let_def)

theorem forward_email_storage_failure_witness:
  "forward_email sample_env sample_forwarder (JStr ''gone'') =
     ([Forward (JStr ''gone''), S3Get ''inbox'' ''gone'',
       Print ''Error processing message gone: The specified key does not exist.''],
      Inl (Exn ''NoSuchKey'' ''The specified key does not exist.''))"
proof -
  have g: "get_object sample_env (bucket_name sample_forwarder) ''gone'' =
             Inl (Exn ''NoSuchKey'' ''The specified key does not exist.'')"
    by (simp add: sample_env_def sample_forwarder_def)
  show ?thesis
    using forward_email_storage_failure [OF g] by (simp add: sample_forwarder_def)
qed

text \<open>
  C6. When the object is fetched and the POST, sent with the timeout of 300 seconds, gets
  no reply (no connection, or the timeout elapses), \<open>forward_email\<close> prints the error
  with the identifier and raises the exception of the send unchanged.
\<close>

theorem forward_email_network_failure:
  assumes "get_object e (bucket_name self) ident = Inr body"
    and "endpoint e (build_request self body (JStr ident)) 300 = NoReply x"
  shows "forward_email e self (JStr ident) =
           ([Forward (JStr ident), S3Get (bucket_name self) ident,
             HttpPost (build_request self body (JStr ident)) 300,
             Print (''Error processing message '' @ ident @ '': '' @ exn_str x)], Inl x)"
  using assms by (simp add: forward_email_def urlopen_def error_line_def Let_def)

theorem forward_email_network_failure_witness:
  "forward_email sample_env sample_forwarder (JStr ''mdown'') =
     ([Forward (JStr ''mdown''), S3Get ''inbox'' ''mdown'', HttpPost (sample_request ''mdown'') 300,
       Print ''Error processing message mdown: <urlopen error timed out>''],
      Inl (Exn ''URLError'' ''<urlopen error timed out>''))"
proof -
  have g: "get_object sample_env (bucket_name sample_forwarder) ''mdown'' = Inr sample_body"
    by (simp add: sample_env_def sample_forwarder_def)
  have p: "endpoint sample_env (build_request sample_forwarder sample_body (JStr ''mdown'')) 300 =
           NoReply (Exn ''URLError'' ''<urlopen error timed out>'')"
    by (simp add: sample_env_def build_request_def)
  show ?thesis
    using forward_email_network_failure [OF g p]
    by (simp add: build_request_def sample_forwarder_def sample_request_def)
qed

text \<open>
  C7. Every POST that \<open>forward_email\<close> makes for an identifier carries the header
  \<open>X-Message-ID\<close> with exactly that identifier as its value.
\<close>

theorem forward_email_header:
  assumes "HttpPost req tmo \<in> set (fst (forward_email e self message_id))"
  shows "headers req = [(''X-Message-ID'', message_id)] \<and> http_method req = ''POST''"
  using assms
  by (auto simp add: forward_email_def build_request_def Let_def split: sum.splits if_splits)

theorem forward_email_header_witness:
  "HttpPost (sample_request ''m1'') 300
     \<in> set (fst (forward_email sample_env sample_forwarder (JStr ''m1'')))
   \<and> headers (sample_request ''m1'') = [(''X-Message-ID'', JStr ''m1'')]"
proof -
  have m: "HttpPost (sample_request ''m1'') 300
             \<in> set (fst (forward_email sample_env sample_forwarder (JStr ''m1'')))"
    by (simp add: forward_email_def sample_env_def sample_forwarder_def sample_request_def
        build_request_def urlopen_def Let_def)
  show ?thesis using m forward_email_header [OF m] by simp
qed

section \<open>The batch loop and the entry point\<close>

text \<open>
  C4. The loop is sequential: when the records before record \<open>r\<close> are processed without a
  raise and \<open>forward_email\<close> raises for the identifier of \<open>r\<close>, the entry point ends
  there with that exception, whatever records follow: the run is the run up to that call,
  and the calls of \<open>forward_email\<close> are those of the earlier records and this one.
\<close>

theorem lambda_handler_stops_at_first_raise:
  assumes "forwarder_init e = (t0, Inr self)"
    and "py_get event ''Records'' (JList []) = Inr recs"
    and "py_iter recs = Inr (rs1 @ r # rs2)"
    and "process_records e self rs1 = (t1, Inr ())"
    and "get_message_id r = Inr m" and "truthy m"
    and "forward_email e self m = (t, Inl x)"
  shows "lambda_handler e event = (t0 @ t1 @ t, Inl x)
         \<and> forward_calls (fst (lambda_handler e event)) = forward_calls t1 @ [m]"
proof -
  have pr: "process_records e self (rs1 @ r # rs2) = (t1 @ t, Inl x)"
    using assms(4-7) by (rule process_records_raise)
  have run: "lambda_handler e event = (t0 @ t1 @ t, Inl x)"
    using lambda_handler_records [OF assms(1-3)] pr by simp
  have "forward_calls t0 = []" using forwarder_init_trace [of e] assms(1) by simp
  moreover have "forward_calls t = [m]" using forward_email_calls [of e self m] assms(7) by simp
  ultimately show ?thesis using run by (simp add: forward_calls_append)
qed

theorem lambda_handler_stops_at_first_raise_witness:
  "lambda_handler sample_env
     (records_event [mail_record ''m1'', mail_record ''gone'', mail_record ''m2'']) =
     ([EnvRead ''API_ENDPOINT'', EnvRead ''S3_BUCKET_NAME'',
       Forward (JStr ''m1''), S3Get ''inbox'' ''m1'', HttpPost (sample_request ''m1'') 300,
       Forward (JStr ''gone''), S3Get ''inbox'' ''gone'',
       Print ''Error processing message gone: The specified key does not exist.''],
      Inl (Exn ''NoSuchKey'' ''The specified key does not exist.''))
   \<and> forward_calls (fst (lambda_handler sample_env
        (records_event [mail_record ''m1'', mail_record ''gone'', mail_record ''m2''])))
      = [JStr ''m1'', JStr ''gone'']"
proof -
  have a1: "forwarder_init sample_env =
              ([EnvRead ''API_ENDPOINT'', EnvRead ''S3_BUCKET_NAME''], Inr sample_forwarder)"
    by (simp add: forwarder_init_def sample_env_def sample_forwarder_def)
  have a2: "py_get (records_event [mail_record ''m1'', mail_record ''gone'', mail_record ''m2''])
              ''Records'' (JList []) =
            Inr (JList ([mail_record ''m1''] @ mail_record ''gone'' # [mail_record ''m2'']))"
    by (simp add: records_event_def)
  have a3: "py_iter (JList ([mail_record ''m1''] @ mail_record ''gone'' # [mail_record ''m2''])) =
            Inr ([mail_record ''m1''] @ mail_record ''gone'' # [mail_record ''m2''])"
    by simp
  have a4: "process_records sample_env sample_forwarder [mail_record ''m1''] =
              ([Forward (JStr ''m1''), S3Get ''inbox'' ''m1'', HttpPost (sample_request ''m1'') 300],
               Inr ())"
    by (simp add: get_message_id_def mail_record_def forward_email_def sample_env_def
        sample_forwarder_def sample_request_def build_request_def urlopen_def Let_def)
  have a5: "get_message_id (mail_record ''gone'') = Inr (JStr ''gone'')"
    by (simp add: get_message_id_def mail_record_def)
  have a6: "truthy (JStr ''gone'')" by simp
  have a7: "forward_email sample_env sample_forwarder (JStr ''gone'') =
              ([Forward (JStr ''gone''), S3Get ''inbox'' ''gone'',
                Print ''Error processing message gone: The specified key does not exist.''],
               Inl (Exn ''NoSuchKey'' ''The specified key does not exist.''))"
    by (simp add: forward_email_def sample_env_def sample_forwarder_def error_line_def Let_def)
  show ?thesis
    using lambda_handler_stops_at_first_raise [OF a1 a2 a3 a4 a5 a6 a7] by simp
qed

text \<open>
  C5. The claim: the entry point calls \<open>forward_email\<close> once for each record that
  carries a well-formed identifier, in the order of the records, and silently passes over
  every record that lacks one. The code makes no check of the types in the event, and the
  claim fails on records that are not typed as the mail service sends them. For the
  records \<open>{messageId: 5}\<close>, \<open>{"ses": null}\<close>, \<open>m1\<close> the specification prescribes the
  single call \<open>m1\<close>; the code calls \<open>forward_email\<close> with the number 5, then raises
  \<open>AttributeError\<close> at the second record, and never reaches \<open>m1\<close>:
\<close>

theorem lambda_handler_forwards_counterexample:
  "spec_forward_calls [record_with (JInt 5), JDict [(''ses'', JNull)], mail_record ''m1'']
     = [JStr ''m1'']
   \<and> lambda_handler number_env
        (records_event [record_with (JInt 5), JDict [(''ses'', JNull)], mail_record ''m1'']) =
       ([EnvRead ''API_ENDPOINT'', EnvRead ''S3_BUCKET_NAME'',
         Forward (JInt 5), S3Get ''inbox'' ''5'',
         HttpPost \<lparr>url = ''https://api.example.com/mail'',
                   data = [0x46, 0x72, 0x6F, 0x6D, 0x3A, 0xFF, 0x00],
                   http_method = ''POST'', headers = [(''X-Message-ID'', JInt 5)]\<rparr> 300],
        Inl (AttributeError JNull ''get''))"
  by (simp add: spec_forward_calls_def map_filter_simps record_with_def mail_record_def
      lambda_handler_def forwarder_init_def records_event_def get_message_id_def
      forward_email_def build_request_def urlopen_def number_env_def sample_env_def
      sample_body_def Let_def)

text \<open>
  C5, as the code has it. For records that are well typed (dicts whose \<open>ses\<close> and \<open>mail\<close>
  values, where present, are dicts, and whose \<open>messageId\<close>, where present, is a string or
  counts as false), the calls of \<open>forward_email\<close> are an initial part of the calls the
  specification prescribes, and they are exactly those calls, with the entry point
  returning, when each of them returns: one call for each record that carries a non-empty
  identifier, in the order of the records, the other records passed over. Outside these
  records: a record whose lookup raises (a \<open>ses\<close> or \<open>mail\<close> value that is not a dict) is
  not passed over, the entry point ends there with that exception; and a \<open>messageId\<close> that
  counts as true, string or not, is passed to \<open>forward_email\<close> as it is.
\<close>

theorem lambda_handler_forwards_in_order:
  assumes "forwarder_init e = (t0, Inr self)"
    and "py_get event ''Records'' (JList []) = Inr recs"
    and "py_iter recs = Inr rs"
  shows "((\<forall>r \<in> set rs. well_typed_record r) \<longrightarrow>
            prefix (forward_calls (fst (lambda_handler e event))) (spec_forward_calls rs)
            \<and> ((\<forall>s \<in> set (List.map_filter spec_identifier rs).
                    snd (forward_email e self (JStr s)) = Inr ()) \<longrightarrow>
                 forward_calls (fst (lambda_handler e event)) = spec_forward_calls rs
                 \<and> snd (lambda_handler e event) = Inr (JDict [(''statusCode'', JInt 200)])))
         \<and> (rs = rs1 @ r # rs2 \<and> process_records e self rs1 = (t1, Inr ())
              \<and> get_message_id r = Inl x \<longrightarrow>
              lambda_handler e event = (t0 @ t1, Inl x))
         \<and> (rs = rs1 @ r # rs2 \<and> process_records e self rs1 = (t1, Inr ())
              \<and> get_message_id r = Inr m \<and> truthy m \<longrightarrow>
              prefix (forward_calls t1 @ [m]) (forward_calls (fst (lambda_handler e event))))"
proof (intro conjI impI)
  have t0: "forward_calls t0 = []" using forwarder_init_trace [of e] assms(1) by simp
  have run: "forward_calls (fst (lambda_handler e event)) =
               forward_calls (fst (process_records e self rs))"
    using lambda_handler_records [OF assms] t0 by (simp add: forward_calls_append)
  {
    assume wt: "\<forall>r \<in> set rs. well_typed_record r"
    show "prefix (forward_calls (fst (lambda_handler e event))) (spec_forward_calls rs)"
      using process_records_well_typed [OF wt, of e self] run by simp
    assume ok: "\<forall>s \<in> set (List.map_filter spec_identifier rs).
                  snd (forward_email e self (JStr s)) = Inr ()"
    from process_records_well_typed [OF wt, of e self] ok
    have pr: "forward_calls (fst (process_records e self rs)) = spec_forward_calls rs"
      and res: "snd (process_records e self rs) = Inr ()" by simp_all
    show "forward_calls (fst (lambda_handler e event)) = spec_forward_calls rs"
      using run pr by simp
    show "snd (lambda_handler e event) = Inr (JDict [(''statusCode'', JInt 200)])"
      using lambda_handler_records [OF assms] res by (simp add: ack_def)
  }
  {
    assume h: "rs = rs1 @ r # rs2 \<and> process_records e self rs1 = (t1, Inr ())
               \<and> get_message_id r = Inl x"
    then have "process_records e self rs = (t1, Inl x)"
      using process_records_append [of e self rs1 t1 "r # rs2"] by simp
    then show "lambda_handler e event = (t0 @ t1, Inl x)"
      using lambda_handler_records [OF assms] by simp
  }
  {
    assume h: "rs = rs1 @ r # rs2 \<and> process_records e self rs1 = (t1, Inr ())
               \<and> get_message_id r = Inr m \<and> truthy m"
    then have split: "forward_calls (fst (process_records e self rs)) =
                 forward_calls t1 @ forward_calls (fst (process_records e self (r # rs2)))"
      using process_records_append [of e self rs1 t1 "r # rs2"]
      by (simp add: forward_calls_append)
    obtain t res where fe: "forward_email e self m = (t, res)"
      by (cases "forward_email e self m")
    have ct: "forward_calls t = [m]" using forward_email_calls [of e self m] fe by simp
    have "prefix [m] (forward_calls (fst (process_records e self (r # rs2))))"
      using h fe ct by (cases res) (simp_all add: case_prod_beta forward_calls_append)
    then show "prefix (forward_calls t1 @ [m]) (forward_calls (fst (lambda_handler e event)))"
      using run split by simp
  }
qed

theorem lambda_handler_forwards_in_order_witness:
  "forward_calls (fst (lambda_handler sample_env
      (records_event [mail_record ''m1'', JDict [], mail_record ''m2''])))
     = [JStr ''m1'', JStr ''m2'']
   \<and> snd (lambda_handler sample_env
        (records_event [mail_record ''m1'', JDict [], mail_record ''m2'']))
     = Inr (JDict [(''statusCode'', JInt 200)])
   \<and> lambda_handler sample_env (records_event [JDict [(''ses'', JNull)], mail_record ''m1'']) =
       ([EnvRead ''API_ENDPOINT'', EnvRead ''S3_BUCKET_NAME''], Inl (AttributeError JNull ''get''))
   \<and> prefix [JInt 5]
        (forward_calls (fst (lambda_handler number_env (records_event [record_with (JInt 5)]))))"
proof -
  have a1: "forwarder_init sample_env =
              ([EnvRead ''API_ENDPOINT'', EnvRead ''S3_BUCKET_NAME''], Inr sample_forwarder)"
    by (simp add: forwarder_init_def sample_env_def sample_forwarder_def)
  have b1: "forwarder_init number_env =
              ([EnvRead ''API_ENDPOINT'', EnvRead ''S3_BUCKET_NAME''], Inr sample_forwarder)"
    by (simp add: forwarder_init_def number_env_def sample_env_def sample_forwarder_def)
  have a2: "py_get (records_event rs) ''Records'' (JList []) = Inr (JList rs)" for rs
    by (simp add: records_event_def)
  have a3: "py_iter (JList rs) = Inr rs" for rs
    by simp
  have wt: "\<forall>r \<in> set [mail_record ''m1'', JDict [], mail_record ''m2'']. well_typed_record r"
    by (simp add: mail_record_def)
  have sp: "List.map_filter spec_identifier [mail_record ''m1'', JDict [], mail_record ''m2'']
              = [''m1'', ''m2'']"
    by (simp add: map_filter_simps mail_record_def)
  have f1: "snd (forward_email sample_env sample_forwarder (JStr ''m1'')) = Inr ()"
    by (simp add: forward_email_def sample_env_def sample_forwarder_def build_request_def
        urlopen_def Let_def)
  have f2: "snd (forward_email sample_env sample_forwarder (JStr ''m2'')) = Inr ()"
    by (simp add: forward_email_def sample_env_def sample_forwarder_def build_request_def
        urlopen_def Let_def)
  have ok: "\<forall>s \<in> set (List.map_filter spec_identifier
                        [mail_record ''m1'', JDict [], mail_record ''m2'']).
              snd (forward_email sample_env sample_forwarder (JStr s)) = Inr ()"
    using sp f1 f2 by simp
  note first = lambda_handler_forwards_in_order [OF a1 a2 a3, THEN conjunct1, THEN mp, OF wt,
      THEN conjunct2, THEN mp, OF ok]
  have w1: "forward_calls (fst (lambda_handler sample_env
                (records_event [mail_record ''m1'', JDict [], mail_record ''m2''])))
             = [JStr ''m1'', JStr ''m2'']"
    using first [THEN conjunct1] sp by (simp add: spec_forward_calls_def)
  have w2: "snd (lambda_handler sample_env
                (records_event [mail_record ''m1'', JDict [], mail_record ''m2'']))
             = Inr (JDict [(''statusCode'', JInt 200)])"
    using first [THEN conjunct2] .
  have h3: "[JDict [(''ses'', JNull)], mail_record ''m1''] = [] @ JDict [(''ses'', JNull)] # [mail_record ''m1'']
            \<and> process_records sample_env sample_forwarder [] = ([], Inr ())
            \<and> get_message_id (JDict [(''ses'', JNull)]) = Inl (AttributeError JNull ''get'')"
    by (simp add: get_message_id_def)
  have w3: "lambda_handler sample_env (records_event [JDict [(''ses'', JNull)], mail_record ''m1'']) =
       ([EnvRead ''API_ENDPOINT'', EnvRead ''S3_BUCKET_NAME''], Inl (AttributeError JNull ''get''))"
    using lambda_handler_forwards_in_order [OF a1 a2 a3, THEN conjunct2, THEN conjunct1, THEN mp,
        OF h3] by simp
  have h4: "[record_with (JInt 5)] = [] @ record_with (JInt 5) # []
            \<and> process_records number_env sample_forwarder [] = ([], Inr ())
            \<and> get_message_id (record_with (JInt 5)) = Inr (JInt 5) \<and> truthy (JInt 5)"
    by (simp add: get_message_id_def record_with_def)
  have w4: "prefix [JInt 5]
        (forward_calls (fst (lambda_handler number_env (records_event [record_with (JInt 5)]))))"
    using lambda_handler_forwards_in_order [OF b1 a2 a3, THEN conjunct2, THEN conjunct2, THEN mp,
        OF h4] by simp
  show ?thesis using w1 w2 w3 w4 by (intro conjI)
qed

text \<open>
  C8. The entry point returns only the fixed acknowledgement \<open>{"statusCode": 200}\<close>. It
  returns it whenever every record completes; and when the records before \<open>r\<close> complete
  and \<open>forward_email\<close> raises for the identifier of \<open>r\<close>, the exception leaves the entry
  point instead of a return value.
\<close>

theorem lambda_handler_result:
  assumes "forwarder_init e = (t0, Inr self)"
    and "py_get event ''Records'' (JList []) = Inr recs"
    and "py_iter recs = Inr rs"
  shows "(\<forall>v. snd (lambda_handler e event) = Inr v \<longrightarrow> v = JDict [(''statusCode'', JInt 200)])
         \<and> ((\<forall>r \<in> set rs. completes e self r) \<longrightarrow>
               snd (lambda_handler e event) = Inr (JDict [(''statusCode'', JInt 200)]))
         \<and> (rs = rs1 @ r # rs2 \<and> (\<forall>r' \<in> set rs1. completes e self r')
               \<and> get_message_id r = Inr m \<and> truthy m \<and> snd (forward_email e self m) = Inl x
               \<longrightarrow> snd (lambda_handler e event) = Inl x)"
proof (intro conjI allI impI)
  fix v
  assume "snd (lambda_handler e event) = Inr v"
  then show "v = JDict [(''statusCode'', JInt 200)]"
    using lambda_handler_records [OF assms] by (auto simp add: ack_def split: sum.splits)
next
  assume "\<forall>r \<in> set rs. completes e self r"
  then have "snd (process_records e self rs) = Inr ()"
    by (simp add: process_records_completes)
  then show "snd (lambda_handler e event) = Inr (JDict [(''statusCode'', JInt 200)])"
    using lambda_handler_records [OF assms] by (simp add: ack_def)
next
  assume h: "rs = rs1 @ r # rs2 \<and> (\<forall>r' \<in> set rs1. completes e self r')
             \<and> get_message_id r = Inr m \<and> truthy m \<and> snd (forward_email e self m) = Inl x"
  then have "snd (process_records e self rs1) = Inr ()"
    by (simp add: process_records_completes)
  then have p1: "process_records e self rs1 = (fst (process_records e self rs1), Inr ())"
    by (metis prod.collapse)
  from h have fe: "forward_email e self m = (fst (forward_email e self m), Inl x)"
    by (metis prod.collapse)
  from h have "snd (process_records e self rs) = Inl x"
    using process_records_raise [OF p1 _ _ fe, of r rs2] by simp
  then show "snd (lambda_handler e event) = Inl x"
    using lambda_handler_records [OF assms] by simp
qed

theorem lambda_handler_result_witness:
  "snd (lambda_handler sample_env (records_event [mail_record ''m1'', JDict [], mail_record ''m2'']))
     = Inr (JDict [(''statusCode'', JInt 200)])
   \<and> snd (lambda_handler sample_env (records_event [mail_record ''m1'', mail_record ''mdown'']))
     = Inl (Exn ''URLError'' ''<urlopen error timed out>'')"
proof -
  have a1: "forwarder_init sample_env =
              ([EnvRead ''API_ENDPOINT'', EnvRead ''S3_BUCKET_NAME''], Inr sample_forwarder)"
    by (simp add: forwarder_init_def sample_env_def sample_forwarder_def)
  have a2: "py_get (records_event rs) ''Records'' (JList []) = Inr (JList rs)" for rs
    by (simp add: records_event_def)
  have a3: "py_iter (JList rs) = Inr rs" for rs
    by simp
  have c1: "completes sample_env sample_forwarder (mail_record ''m1'')"
    by (simp add: completes_def get_message_id_def mail_record_def forward_email_def sample_env_def
        sample_forwarder_def build_request_def urlopen_def Let_def)
  have c2: "completes sample_env sample_forwarder (JDict [])"
    by (simp add: completes_def get_message_id_def)
  have c3: "completes sample_env sample_forwarder (mail_record ''m2'')"
    by (simp add: completes_def get_message_id_def mail_record_def forward_email_def sample_env_def
        sample_forwarder_def build_request_def urlopen_def Let_def)
  have all: "\<forall>r \<in> set [mail_record ''m1'', JDict [], mail_record ''m2''].
               completes sample_env sample_forwarder r"
    using c1 c2 c3 by simp
  have ok: "snd (lambda_handler sample_env
                   (records_event [mail_record ''m1'', JDict [], mail_record ''m2'']))
              = Inr (JDict [(''statusCode'', JInt 200)])"
    using lambda_handler_result [OF a1 a2 a3, THEN conjunct2, THEN conjunct1] all by (rule mp)
  have g: "get_message_id (mail_record ''mdown'') = Inr (JStr ''mdown'')"
    by (simp add: get_message_id_def mail_record_def)
  have f: "snd (forward_email sample_env sample_forwarder (JStr ''mdown'')) =
             Inl (Exn ''URLError'' ''<urlopen error timed out>'')"
    by (simp add: forward_email_def sample_env_def sample_forwarder_def build_request_def
        urlopen_def Let_def)
  have pre: "[mail_record ''m1'', mail_record ''mdown''] = [mail_record ''m1''] @ mail_record ''mdown'' # []
        \<and> (\<forall>r' \<in> set [mail_record ''m1'']. completes sample_env sample_forwarder r')
        \<and> get_message_id (mail_record ''mdown'') = Inr (JStr ''mdown'') \<and> truthy (JStr ''mdown'')
        \<and> snd (forward_email sample_env sample_forwarder (JStr ''mdown'')) =
            Inl (Exn ''URLError'' ''<urlopen error timed out>'')"
    using c1 g f by simp
  have bad: "snd (lambda_handler sample_env
                    (records_event [mail_record ''m1'', mail_record ''mdown'']))
              = Inl (Exn ''URLError'' ''<urlopen error timed out>'')"
    using lambda_handler_result [OF a1 a2 a3, THEN conjunct2, THEN conjunct2] pre by (rule mp)
  show ?thesis using ok bad by (rule conjI)
qed
text \<open>
  C9. The configuration is read from the environment when the entry point starts, each of
  the two required strings once and with no default. If one is absent the entry point
  raises \<open>KeyError\<close> at once, before any storage or HTTP action. Once read, the
  configuration does not change: every storage read of the run names the bucket that was
  read and every POST goes to the endpoint that was read.
\<close>

theorem configuration_read_once:
  "(environ e ''API_ENDPOINT'' = None \<longrightarrow>
      lambda_handler e event = ([EnvRead ''API_ENDPOINT''], Inl (KeyError ''API_ENDPOINT'')))
   \<and> (environ e ''API_ENDPOINT'' \<noteq> None \<and> environ e ''S3_BUCKET_NAME'' = None \<longrightarrow>
      lambda_handler e event =
        ([EnvRead ''API_ENDPOINT'', EnvRead ''S3_BUCKET_NAME''], Inl (KeyError ''S3_BUCKET_NAME'')))
   \<and> (environ e ''API_ENDPOINT'' = Some ep \<and> environ e ''S3_BUCKET_NAME'' = Some b \<longrightarrow>
      forwarder_init e =
        ([EnvRead ''API_ENDPOINT'', EnvRead ''S3_BUCKET_NAME''],
         Inr \<lparr>api_endpoint = ep, bucket_name = b\<rparr>)
      \<and> env_reads (fst (lambda_handler e event)) = [''API_ENDPOINT'', ''S3_BUCKET_NAME'']
      \<and> (\<forall>bk k. S3Get bk k \<in> set (fst (lambda_handler e event)) \<longrightarrow> bk = b)
      \<and> (\<forall>req tmo. HttpPost req tmo \<in> set (fst (lambda_handler e event)) \<longrightarrow> url req = ep))"
proof (intro conjI impI)
  assume "environ e ''API_ENDPOINT'' = None"
  then show "lambda_handler e event = ([EnvRead ''API_ENDPOINT''], Inl (KeyError ''API_ENDPOINT''))"
    by (simp add: lambda_handler_def forwarder_init_def)
next
  assume "environ e ''API_ENDPOINT'' \<noteq> None \<and> environ e ''S3_BUCKET_NAME'' = None"
  then show "lambda_handler e event =
        ([EnvRead ''API_ENDPOINT'', EnvRead ''S3_BUCKET_NAME''], Inl (KeyError ''S3_BUCKET_NAME''))"
    by (auto simp add: lambda_handler_def forwarder_init_def)
next
  assume cfg: "environ e ''API_ENDPOINT'' = Some ep \<and> environ e ''S3_BUCKET_NAME'' = Some b"
  then show init: "forwarder_init e =
        ([EnvRead ''API_ENDPOINT'', EnvRead ''S3_BUCKET_NAME''],
         Inr \<lparr>api_endpoint = ep, bucket_name = b\<rparr>)"
    by (simp add: forwarder_init_def)
  consider (stopped) x where "lambda_handler e event = (fst (forwarder_init e), Inl x)"
    | (looped) t0 self rs where "forwarder_init e = (t0, Inr self)"
        "lambda_handler e event =
           (t0 @ fst (process_records e self rs),
            case snd (process_records e self rs) of Inl x \<Rightarrow> Inl x | Inr u \<Rightarrow> Inr ack)"
    by (rule lambda_handler_cases)
  then have run: "\<exists>rs. fst (lambda_handler e event) =
      [EnvRead ''API_ENDPOINT'', EnvRead ''S3_BUCKET_NAME'']
        @ fst (process_records e \<lparr>api_endpoint = ep, bucket_name = b\<rparr> rs)"
  proof cases
    case (stopped x)
    with init have "fst (lambda_handler e event) =
      [EnvRead ''API_ENDPOINT'', EnvRead ''S3_BUCKET_NAME'']
        @ fst (process_records e \<lparr>api_endpoint = ep, bucket_name = b\<rparr> [])" by simp
    then show ?thesis by blast
  next
    case (looped t0 self rs)
    with init show ?thesis by auto
  qed
  then obtain rs where tr: "fst (lambda_handler e event) =
      [EnvRead ''API_ENDPOINT'', EnvRead ''S3_BUCKET_NAME'']
        @ fst (process_records e \<lparr>api_endpoint = ep, bucket_name = b\<rparr> rs)" by blast
  show "env_reads (fst (lambda_handler e event)) = [''API_ENDPOINT'', ''S3_BUCKET_NAME'']"
    using tr process_records_env_reads [of e "\<lparr>api_endpoint = ep, bucket_name = b\<rparr>" rs]
    by (simp add: env_reads_append)
  show "\<forall>bk k. S3Get bk k \<in> set (fst (lambda_handler e event)) \<longrightarrow> bk = b"
    using tr process_records_bucket [of _ _ e "\<lparr>api_endpoint = ep, bucket_name = b\<rparr>" rs]
    by auto
  show "\<forall>req tmo. HttpPost req tmo \<in> set (fst (lambda_handler e event)) \<longrightarrow> url req = ep"
    using tr process_records_url [of _ _ e "\<lparr>api_endpoint = ep, bucket_name = b\<rparr>" rs]
    by auto
qed

theorem configuration_read_once_witness:
  "lambda_handler (sample_env\<lparr>environ := Map.empty\<rparr>) (records_event [mail_record ''m1'']) =
     ([EnvRead ''API_ENDPOINT''], Inl (KeyError ''API_ENDPOINT''))
   \<and> lambda_handler (sample_env\<lparr>environ := [''API_ENDPOINT'' \<mapsto> ''https://api.example.com/mail'']\<rparr>)
       (records_event [mail_record ''m1'']) =
     ([EnvRead ''API_ENDPOINT'', EnvRead ''S3_BUCKET_NAME''], Inl (KeyError ''S3_BUCKET_NAME''))
   \<and> forwarder_init sample_env =
       ([EnvRead ''API_ENDPOINT'', EnvRead ''S3_BUCKET_NAME''], Inr sample_forwarder)
   \<and> env_reads (fst (lambda_handler sample_env (records_event [mail_record ''m1'', mail_record ''m2''])))
       = [''API_ENDPOINT'', ''S3_BUCKET_NAME'']
   \<and> HttpPost (sample_request ''m2'') 300
       \<in> set (fst (lambda_handler sample_env (records_event [mail_record ''m1'', mail_record ''m2''])))
   \<and> url (sample_request ''m2'') = ''https://api.example.com/mail''"
proof -
  have n1: "environ (sample_env\<lparr>environ := Map.empty\<rparr>) ''API_ENDPOINT'' = None"
    by simp
  have n2: "environ (sample_env\<lparr>environ := [''API_ENDPOINT'' \<mapsto> ''https://api.example.com/mail'']\<rparr>)
              ''API_ENDPOINT'' \<noteq> None
            \<and> environ (sample_env\<lparr>environ := [''API_ENDPOINT'' \<mapsto> ''https://api.example.com/mail'']\<rparr>)
              ''S3_BUCKET_NAME'' = None"
    by simp
  have n3: "environ sample_env ''API_ENDPOINT'' = Some ''https://api.example.com/mail''
            \<and> environ sample_env ''S3_BUCKET_NAME'' = Some ''inbox''"
    by (simp add: sample_env_def)
  have a1: "forwarder_init sample_env =
              ([EnvRead ''API_ENDPOINT'', EnvRead ''S3_BUCKET_NAME''], Inr sample_forwarder)"
    by (simp add: forwarder_init_def sample_env_def sample_forwarder_def)
  have a2: "py_get (records_event [mail_record ''m1'', mail_record ''m2'']) ''Records'' (JList []) =
              Inr (JList [mail_record ''m1'', mail_record ''m2''])"
    by (simp add: records_event_def)
  have a3: "py_iter (JList [mail_record ''m1'', mail_record ''m2'']) =
              Inr [mail_record ''m1'', mail_record ''m2'']"
    by simp
  have pr: "fst (process_records sample_env sample_forwarder [mail_record ''m1'', mail_record ''m2'']) =
              [Forward (JStr ''m1''), S3Get ''inbox'' ''m1'', HttpPost (sample_request ''m1'') 300,
               Forward (JStr ''m2''), S3Get ''inbox'' ''m2'', HttpPost (sample_request ''m2'') 300]"
    by (simp add: get_message_id_def mail_record_def forward_email_def sample_env_def
        sample_forwarder_def sample_request_def build_request_def urlopen_def Let_def)
  have mem: "HttpPost (sample_request ''m2'') 300
       \<in> set (fst (lambda_handler sample_env (records_event [mail_record ''m1'', mail_record ''m2''])))"
    using lambda_handler_records [OF a1 a2 a3] pr by simp
  have w1: "lambda_handler (sample_env\<lparr>environ := Map.empty\<rparr>) (records_event [mail_record ''m1'']) =
     ([EnvRead ''API_ENDPOINT''], Inl (KeyError ''API_ENDPOINT''))"
    using configuration_read_once [THEN conjunct1] n1 by (rule mp)
  have w2: "lambda_handler (sample_env\<lparr>environ := [''API_ENDPOINT'' \<mapsto> ''https://api.example.com/mail'']\<rparr>)
       (records_event [mail_record ''m1'']) =
     ([EnvRead ''API_ENDPOINT'', EnvRead ''S3_BUCKET_NAME''], Inl (KeyError ''S3_BUCKET_NAME''))"
    using configuration_read_once [THEN conjunct2, THEN conjunct1] n2 by (rule mp)
  note w3 = mp [OF configuration_read_once [THEN conjunct2, THEN conjunct2] n3]
  have w3b: "env_reads (fst (lambda_handler sample_env
                (records_event [mail_record ''m1'', mail_record ''m2''])))
             = [''API_ENDPOINT'', ''S3_BUCKET_NAME'']"
    using w3 [THEN conjunct2, THEN conjunct1] .
  have w3d: "url (sample_request ''m2'') = ''https://api.example.com/mail''"
    using w3 [THEN conjunct2, THEN conjunct2, THEN conjunct2, THEN spec, THEN spec, THEN mp, OF mem] .
  show ?thesis using w1 w2 a1 w3b mem w3d by (intro conjI)
qed
text \<open>
  C10. A record whose \<open>messageId\<close> is the empty string is passed over exactly as a record
  with no \<open>messageId\<close> is, and no run of the entry point calls \<open>forward_email\<close> with the
  empty identifier.
\<close>

theorem empty_identifier_skipped:
  assumes "get_message_id r = Inr (JStr [])"
  shows "process_records e self (r # rs) = process_records e self rs
         \<and> (get_message_id r' = Inr JNull \<longrightarrow>
               process_records e self (r # rs) = process_records e self (r' # rs))
         \<and> Forward (JStr []) \<notin> set (fst (lambda_handler e event))"
proof (intro conjI impI)
  show "process_records e self (r # rs) = process_records e self rs"
    using assms by simp
  show "process_records e self (r # rs) = process_records e self (r' # rs)"
    if "get_message_id r' = Inr JNull"
    using assms that by simp
  show "Forward (JStr []) \<notin> set (fst (lambda_handler e event))"
    using lambda_handler_calls_truthy [of "JStr []" e event] by auto
qed

theorem empty_identifier_skipped_witness:
  "get_message_id (mail_record []) = Inr (JStr [])
   \<and> get_message_id (JDict []) = Inr JNull
   \<and> process_records sample_env sample_forwarder [mail_record [], mail_record ''m1'']
       = process_records sample_env sample_forwarder [JDict [], mail_record ''m1'']
   \<and> Forward (JStr []) \<notin> set (fst (lambda_handler sample_env
        (records_event [mail_record [], mail_record ''m1''])))"
proof -
  have g: "get_message_id (mail_record []) = Inr (JStr [])"
    by (simp add: get_message_id_def mail_record_def)
  have n: "get_message_id (JDict []) = Inr JNull"
    by (simp add: get_message_id_def)
  show ?thesis
    using empty_identifier_skipped [OF g, of sample_env sample_forwarder "[mail_record ''m1'']"
        "JDict []" "records_event [mail_record [], mail_record ''m1'']"] g n
    by simp
qed

end
